theory Spec2Isabelle
  imports Complex_Main "HOL-Library.Char_ord" "HOL-Library.List_Lexorder"
    "HOL-Library.Product_Lexorder" "HOL-Library.Multiset"
begin

section \<open>The dataset\<close>

text \<open>
  The engine of \<^verbatim>\<open>utils/insights.py\<close> works on a pandas frame. A frame is modelled by
  its column names, in column order, and its rows; a row maps a column name to the cell
  it holds, and a missing value (pandas' NaN, NaT or None) is \<open>None\<close>. A timestamp is
  (year, month, day, second of the day).

  Numbers are exact rationals: the rounding of binary floating point is not modelled.

  Of the ten functions of the engine, \<^verbatim>\<open>get_shipping_analysis\<close>,
  \<^verbatim>\<open>get_product_analysis\<close> and \<^verbatim>\<open>generate_summary_report\<close> repeat the count and
  group tables of the others on further columns, and no property below depends on them;
  the other seven are modelled.
\<close>

type_synonym timestamp = "nat \<times> nat \<times> nat \<times> nat"

datatype cell = Num rat | Str string | Stamp timestamp

type_synonym row = "string \<rightharpoonup> cell"

record dataframe =
  columns :: "string list"
  rows :: "row list"

text \<open>\<^verbatim>\<open>c in df.columns\<close>, \<^verbatim>\<open>len(df)\<close> and \<^verbatim>\<open>df[c]\<close>.\<close>

definition has :: "dataframe \<Rightarrow> string \<Rightarrow> bool" where
  "has df c \<longleftrightarrow> c \<in> set (columns df)"

definition len :: "dataframe \<Rightarrow> nat" where
  "len df = length (rows df)"

definition series :: "dataframe \<Rightarrow> string \<Rightarrow> cell option list" where
  "series df c = map (\<lambda>r. r c) (rows df)"

text \<open>
  The numeric reading of a column (dtype float64). The amount and quantity columns are
  numeric in the data model; \<open>numeric\<close> says that a column holds numbers and missing
  values only. The properties of the functions that read the two columns are stated for
  frames in which they are numeric: on text, pandas raises a type error or concatenates.
\<close>

fun the_num :: "cell option \<Rightarrow> rat option" where
  "the_num (Some (Num x)) = Some x"
| "the_num _ = None"

definition float64 :: "cell option list \<Rightarrow> rat option list" where
  "float64 xs = map the_num xs"

fun is_num :: "cell option \<Rightarrow> bool" where
  "is_num None = True"
| "is_num (Some (Num x)) = True"
| "is_num _ = False"

definition numeric :: "dataframe \<Rightarrow> string \<Rightarrow> bool" where
  "numeric df c \<longleftrightarrow> list_all is_num (series df c)"

section \<open>Results\<close>

text \<open>
  Exceptions are values. A numpy scalar is a \<open>number\<close>: finite, the square root of a
  rational (a standard deviation), NaN or an infinity.
\<close>

datatype error =
    IndexError
  | KeyError "string list"
  | ZeroDivisionError
  | UnboundLocalError string
  | ValueError
  | ParserError

datatype number = Fin rat | Root rat | NaN | PosInf | NegInf

datatype val =
    IntV int
  | NumV number
  | StrV string
  | LabelV cell
  | DateV "nat \<times> nat \<times> nat"
  | PeriodV "nat \<times> nat"
  | CountsV "(cell \<times> nat) list"
  | QuantilesV "(rat \<times> number) list"
  | FrameV "string list" "val list list"
  | ErrorV error
  | TextV string "val list"
  | ListV "val list"

text \<open>A returned mapping, in insertion order.\<close>

type_synonym mapping = "(string \<times> val) list"

definition keys :: "mapping \<Rightarrow> string set" where
  "keys m = fst ` set m"

text \<open>
  Division of numpy scalars does not raise on a zero divisor (it warns and gives NaN or
  an infinity); division of Python integers raises \<^verbatim>\<open>ZeroDivisionError\<close>.
\<close>

definition np_div :: "rat \<Rightarrow> rat \<Rightarrow> number" where
  "np_div a b =
     (if b \<noteq> 0 then Fin (a / b)
      else if a = 0 then NaN else if 0 < a then PosInf else NegInf)"

definition py_div :: "int \<Rightarrow> int \<Rightarrow> error + rat" where
  "py_div a b = (if b = 0 then Inl ZeroDivisionError else Inr (of_int a / of_int b))"

fun percent :: "number \<Rightarrow> number" where
  "percent (Fin x) = Fin (x * 100)"
| "percent (Root x) = Root (x * 10000)"
| "percent n = n"

section \<open>Series operations\<close>

fun dropna :: "'a option list \<Rightarrow> 'a list" where
  "dropna [] = []"
| "dropna (None # xs) = dropna xs"
| "dropna (Some x # xs) = x # dropna xs"

text \<open>The distinct values of a list, in the order of their first occurrence.\<close>

definition uniq :: "'a list \<Rightarrow> 'a list" where
  "uniq xs = rev (remdups (rev xs))"

text \<open>
  \<^verbatim>\<open>value_counts()\<close>: the count of each value that is not missing, the largest count
  first. Equal counts are kept in the order of first occurrence.
\<close>

definition value_counts :: "cell option list \<Rightarrow> (cell \<times> nat) list" where
  "value_counts xs =
     (let vs = dropna xs
      in sort_key (\<lambda>kn. - int (snd kn)) (map (\<lambda>k. (k, count_list vs k)) (uniq vs)))"

definition nunique :: "cell option list \<Rightarrow> nat" where
  "nunique xs = length (uniq (dropna xs))"

text \<open>\<^verbatim>\<open>counts.get(k, 0)\<close> and \<^verbatim>\<open>counts.head(n).sum()\<close>.\<close>

definition counts_get :: "(cell \<times> nat) list \<Rightarrow> cell \<Rightarrow> nat" where
  "counts_get vc k = (case map_of vc k of None \<Rightarrow> 0 | Some n \<Rightarrow> n)"

definition head_sum :: "nat \<Rightarrow> (cell \<times> nat) list \<Rightarrow> nat" where
  "head_sum n vc = sum_list (map snd (take n vc))"

text \<open>Reductions of a numeric series; each skips the missing values.\<close>

definition np_sum :: "rat option list \<Rightarrow> rat" where
  "np_sum xs = sum_list (dropna xs)"

definition np_mean :: "rat option list \<Rightarrow> number" where
  "np_mean xs =
     (let vs = dropna xs
      in if vs = [] then NaN else Fin (sum_list vs / of_nat (length vs)))"

definition np_std :: "rat option list \<Rightarrow> number" where
  "np_std xs =
     (let vs = dropna xs; n = length vs
      in if n < 2 then NaN
         else let mu = sum_list vs / of_nat n
              in Root (sum_list (map (\<lambda>x. (x - mu) * (x - mu)) vs) / of_nat (n - 1)))"

definition np_max :: "rat option list \<Rightarrow> number" where
  "np_max xs = (case dropna xs of [] \<Rightarrow> NaN | v # vs \<Rightarrow> Fin (fold max vs v))"

definition np_min :: "rat option list \<Rightarrow> number" where
  "np_min xs = (case dropna xs of [] \<Rightarrow> NaN | v # vs \<Rightarrow> Fin (fold min vs v))"

text \<open>
  \<^verbatim>\<open>quantile(q)\<close> with linear interpolation between the two neighbouring order
  statistics; NaN when no value is present.
\<close>

definition interpolate :: "rat list \<Rightarrow> rat \<Rightarrow> rat" where
  "interpolate s q =
     (let pos = q * of_nat (length s - 1);
          lo = nat \<lfloor>pos\<rfloor>;
          hi = min (lo + 1) (length s - 1);
          frac = pos - of_int \<lfloor>pos\<rfloor>
      in s ! lo + frac * (s ! hi - s ! lo))"

definition quantile :: "rat option list \<Rightarrow> rat \<Rightarrow> number" where
  "quantile xs q =
     (let s = sort (dropna xs)
      in if s = [] then NaN else Fin (interpolate s q))"

definition np_median :: "rat option list \<Rightarrow> number" where
  "np_median xs = quantile xs (1 / 2)"

section \<open>get_key_metrics\<close>

text \<open>
  \<^verbatim>\<open>df[c].value_counts().index[0] if len(df) > 0 else 'N/A'\<close>: the index of an empty
  count table has no first element.
\<close>

definition top_label :: "dataframe \<Rightarrow> string \<Rightarrow> error + val" where
  "top_label df c =
     (if len df > 0
      then (case value_counts (series df c) of
              [] \<Rightarrow> Inl IndexError
            | kn # _ \<Rightarrow> Inr (LabelV (fst kn)))
      else Inr (StrV ''N/A''))"

text \<open>The block repeated for the category, the state and the city column.\<close>

definition unique_and_top ::
  "dataframe \<Rightarrow> string \<Rightarrow> string \<Rightarrow> string \<Rightarrow> error + mapping" where
  "unique_and_top df c k_unique k_top =
     (if has df c
      then (case top_label df c of
              Inl e \<Rightarrow> Inl e
            | Inr t \<Rightarrow> Inr [(k_unique, IntV (int (nunique (series df c)))), (k_top, t)])
      else Inr [])"

definition shipped_percentage :: "dataframe \<Rightarrow> val" where
  "shipped_percentage df =
     (if len df > 0
      then NumV (percent (np_div
             (of_nat (counts_get (value_counts (series df ''Status'')) (Str ''Shipped'')))
             (of_nat (len df))))
      else IntV 0)"

definition basic_metrics :: "dataframe \<Rightarrow> mapping" where
  "basic_metrics df =
     [(''total_orders'', IntV (int (len df))),
      (''total_revenue'',
         if has df ''Amount'' then NumV (Fin (np_sum (float64 (series df ''Amount''))))
         else IntV 0),
      (''avg_order_value'',
         if has df ''Amount'' then NumV (np_mean (float64 (series df ''Amount'')))
         else IntV 0),
      (''total_quantity'',
         if has df ''Qty'' then NumV (Fin (np_sum (float64 (series df ''Qty''))))
         else IntV 0)]"

definition advanced_metrics :: "dataframe \<Rightarrow> mapping" where
  "advanced_metrics df =
     (if has df ''Amount''
      then [(''revenue_std'', NumV (np_std (float64 (series df ''Amount'')))),
            (''median_order_value'', NumV (np_median (float64 (series df ''Amount'')))),
            (''max_order_value'', NumV (np_max (float64 (series df ''Amount'')))),
            (''min_order_value'', NumV (np_min (float64 (series df ''Amount''))))]
      else [])"

definition status_metrics :: "dataframe \<Rightarrow> mapping" where
  "status_metrics df =
     (if has df ''Status''
      then [(''status_distribution'', CountsV (value_counts (series df ''Status''))),
            (''shipped_percentage'', shipped_percentage df)]
      else [])"

definition fulfillment_metrics :: "dataframe \<Rightarrow> mapping" where
  "fulfillment_metrics df =
     (if has df ''Fulfilment''
      then [(''fulfillment_distribution'', CountsV (value_counts (series df ''Fulfilment'')))]
      else [])"

definition get_key_metrics :: "dataframe \<Rightarrow> error + mapping" where
  "get_key_metrics df =
     (case unique_and_top df ''Category'' ''unique_categories'' ''top_category'' of
        Inl e \<Rightarrow> Inl e
      | Inr category \<Rightarrow>
     (case unique_and_top df ''ship-state'' ''unique_states'' ''top_state'' of
        Inl e \<Rightarrow> Inl e
      | Inr state \<Rightarrow>
     (case unique_and_top df ''ship-city'' ''unique_cities'' ''top_city'' of
        Inl e \<Rightarrow> Inl e
      | Inr city \<Rightarrow>
          Inr (basic_metrics df @ advanced_metrics df @ category @ state @ city
               @ status_metrics df @ fulfillment_metrics df))))"

section \<open>Grouping\<close>

text \<open>
  \<^verbatim>\<open>groupby\<close> drops the rows whose key is missing and lists the groups by ascending
  key. Cells are ordered through \<open>cell_key\<close>.
\<close>

definition cell_key :: "cell \<Rightarrow> nat \<times> rat \<times> string \<times> timestamp" where
  "cell_key c =
     (case c of
        Num x \<Rightarrow> (0, x, [], (0, 0, 0, 0))
      | Str s \<Rightarrow> (1, 0, s, (0, 0, 0, 0))
      | Stamp t \<Rightarrow> (2, 0, [], t))"

definition group_by ::
  "('k \<Rightarrow> 'o::linorder) \<Rightarrow> 'k option list \<Rightarrow> row list \<Rightarrow> ('k \<times> row list) list" where
  "group_by key ks rs =
     map (\<lambda>k. (k, map snd (filter (\<lambda>kr. fst kr = Some k) (zip ks rs))))
       (sort_key key (uniq (dropna ks)))"

datatype aggfun = Sum | Mean | Std | Count

definition agg :: "aggfun \<Rightarrow> cell option list \<Rightarrow> val" where
  "agg f xs =
     (case f of
        Sum \<Rightarrow> NumV (Fin (np_sum (float64 xs)))
      | Mean \<Rightarrow> NumV (np_mean (float64 xs))
      | Std \<Rightarrow> NumV (np_std (float64 xs))
      | Count \<Rightarrow> IntV (int (length (dropna xs))))"

text \<open>
  One output row per group: its label, then for each column of the specification the
  value of each of its aggregation functions.
\<close>

definition agg_rows ::
  "('k \<Rightarrow> val) \<Rightarrow> ('k \<times> row list) list \<Rightarrow> (string \<times> aggfun list) list \<Rightarrow> val list list" where
  "agg_rows label gs spec =
     map (\<lambda>g. label (fst g) #
                concat (map (\<lambda>cf. map (\<lambda>f. agg f (map (\<lambda>r. r (fst cf)) (snd g))) (snd cf)) spec))
       gs"

text \<open>
  \<^verbatim>\<open>.agg({column: functions, ...})\<close>: pandas raises \<^verbatim>\<open>KeyError\<close>, naming the columns of
  the dictionary that the frame does not have.
\<close>

definition agg_dict ::
  "dataframe \<Rightarrow> ('k \<Rightarrow> val) \<Rightarrow> ('k \<times> row list) list \<Rightarrow> (string \<times> aggfun list) list
     \<Rightarrow> error + val list list" where
  "agg_dict df label gs spec =
     (let missing = filter (\<lambda>c. \<not> has df c) (map fst spec)
      in if missing \<noteq> [] then Inl (KeyError (sort missing))
         else Inr (agg_rows label gs spec))"

fun num_of :: "val \<Rightarrow> rat" where
  "num_of (NumV (Fin x)) = x"
| "num_of (IntV i) = of_int i"
| "num_of _ = 0"

text \<open>\<^verbatim>\<open>sort_values(column, ascending=False)\<close> on the rows of a table.\<close>

definition sort_desc :: "nat \<Rightarrow> val list list \<Rightarrow> val list list" where
  "sort_desc i t = sort_key (\<lambda>r. - num_of (r ! i)) t"

section \<open>get_category_analysis\<close>

definition revenue_per_unit :: "val list \<Rightarrow> val list" where
  "revenue_per_unit r = r @ [NumV (np_div (num_of (r ! 1)) (num_of (r ! 4)))]"

definition category_performance :: "dataframe \<Rightarrow> error + mapping" where
  "category_performance df =
     (if has df ''Amount'' \<and> has df ''Qty''
      then (case agg_dict df LabelV (group_by cell_key (series df ''Category'') (rows df))
                   [(''Amount'', [Sum, Mean, Std]), (''Qty'', [Sum, Mean]),
                    (''Order ID'', [Count])] of
              Inl e \<Rightarrow> Inl e
            | Inr t \<Rightarrow>
                Inr [(''category_performance'',
                      FrameV [''Category'', ''Total_Revenue'', ''Avg_Revenue'', ''Revenue_Std'',
                              ''Total_Qty'', ''Avg_Qty'', ''Order_Count'', ''Revenue_per_Unit'']
                        (map revenue_per_unit t))])
      else Inr [])"

definition get_category_analysis :: "dataframe \<Rightarrow> error + mapping" where
  "get_category_analysis df =
     (if has df ''Category''
      then
        (let category_counts = value_counts (series df ''Category'');
             gs = group_by cell_key (series df ''Category'') (rows df);
             counts = [(''category_counts'', CountsV category_counts),
                       (''top_categories'', CountsV (take 10 category_counts))];
             revenue =
               (if has df ''Amount''
                then [(''category_revenue'',
                       FrameV [''Category'', ''Total_Revenue'', ''Avg_Revenue'', ''Order_Count'']
                         (sort_desc 1 (agg_rows LabelV gs [(''Amount'', [Sum, Mean, Count])])))]
                else []);
             quantity =
               (if has df ''Qty''
                then [(''category_quantity'',
                       FrameV [''Category'', ''Total_Qty'', ''Avg_Qty'']
                         (agg_rows LabelV gs [(''Qty'', [Sum, Mean])]))]
                else [])
         in case category_performance df of
              Inl e \<Rightarrow> Inl e
            | Inr performance \<Rightarrow> Inr (counts @ revenue @ quantity @ performance))
      else Inr [])"

section \<open>get_revenue_analysis\<close>

text \<open>
  Comparison of a cell of the amount column with a quantile. A comparison with a missing
  value or with NaN is false.
\<close>

fun cmp_gt :: "rat option \<Rightarrow> number \<Rightarrow> bool" where
  "cmp_gt (Some a) (Fin q) = (q < a)"
| "cmp_gt _ _ = False"

fun cmp_ge :: "rat option \<Rightarrow> number \<Rightarrow> bool" where
  "cmp_ge (Some a) (Fin q) = (q \<le> a)"
| "cmp_ge _ _ = False"

fun cmp_le :: "rat option \<Rightarrow> number \<Rightarrow> bool" where
  "cmp_le (Some a) (Fin q) = (a \<le> q)"
| "cmp_le _ _ = False"

fun cmp_lt :: "rat option \<Rightarrow> number \<Rightarrow> bool" where
  "cmp_lt (Some a) (Fin q) = (a < q)"
| "cmp_lt _ _ = False"

definition high_value_orders :: "rat option list \<Rightarrow> nat" where
  "high_value_orders amount = length (filter (\<lambda>a. cmp_gt a (quantile amount (9 / 10))) amount)"

definition medium_value_orders :: "rat option list \<Rightarrow> nat" where
  "medium_value_orders amount =
     length (filter (\<lambda>a. cmp_ge a (quantile amount (1 / 2)) \<and> cmp_le a (quantile amount (9 / 10)))
               amount)"

definition low_value_orders :: "rat option list \<Rightarrow> nat" where
  "low_value_orders amount = length (filter (\<lambda>a. cmp_lt a (quantile amount (1 / 2))) amount)"

definition get_revenue_analysis :: "dataframe \<Rightarrow> mapping" where
  "get_revenue_analysis df =
     (if has df ''Amount''
      then
        (let amount = float64 (series df ''Amount'')
         in [(''total_revenue'', NumV (Fin (np_sum amount))),
             (''avg_revenue'', NumV (np_mean amount)),
             (''median_revenue'', NumV (np_median amount)),
             (''revenue_std'', NumV (np_std amount)),
             (''max_revenue'', NumV (np_max amount)),
             (''min_revenue'', NumV (np_min amount)),
             (''revenue_quartiles'',
                QuantilesV [(1 / 4, quantile amount (1 / 4)), (1 / 2, quantile amount (1 / 2)),
                            (3 / 4, quantile amount (3 / 4))]),
             (''high_value_orders'', IntV (int (high_value_orders amount))),
             (''medium_value_orders'', IntV (int (medium_value_orders amount))),
             (''low_value_orders'', IntV (int (low_value_orders amount)))]
            @ (if has df ''currency''
               then [(''currency_revenue'',
                      FrameV [''Currency'', ''Total_Revenue'', ''Avg_Revenue'', ''Order_Count'']
                        (agg_rows LabelV (group_by cell_key (series df ''currency'') (rows df))
                           [(''Amount'', [Sum, Mean, Count])]))]
               else []))
      else [])"

section \<open>get_customer_insights\<close>

text \<open>
  The local variable \<^verbatim>\<open>total_orders\<close> is assigned in the branch of the state column
  only and read in the branch of the city column: it is \<open>None\<close> while unassigned, and
  reading it then raises \<^verbatim>\<open>UnboundLocalError\<close>. The concentrations divide a numpy
  integer by \<^verbatim>\<open>total_orders\<close>.
\<close>

definition concentration :: "nat \<Rightarrow> (cell \<times> nat) list \<Rightarrow> nat \<Rightarrow> val" where
  "concentration k vc total_orders =
     NumV (percent (np_div (of_nat (head_sum k vc)) (of_nat total_orders)))"

definition get_customer_insights :: "dataframe \<Rightarrow> error + mapping" where
  "get_customer_insights df =
     (let state_customers = value_counts (series df ''ship-state'');
          by_state =
            (if has df ''ship-state''
             then [(''customers_by_state'', CountsV state_customers),
                   (''top_5_states_concentration'', concentration 5 state_customers (len df))]
             else []);
          total_orders = (if has df ''ship-state'' then Some (len df) else None);
          city_customers = value_counts (series df ''ship-city'');
          by_postal =
            (if has df ''ship-postal-code''
             then [(''customers_by_postal'',
                    CountsV (take 20 (value_counts (series df ''ship-postal-code''))))]
             else []);
          by_country =
            (if has df ''ship-country''
             then [(''customers_by_country'', CountsV (value_counts (series df ''ship-country'')))]
             else [])
      in case (if has df ''ship-city''
               then (case total_orders of
                       None \<Rightarrow> Inl (UnboundLocalError ''total_orders'')
                     | Some n \<Rightarrow>
                         Inr [(''customers_by_city'', CountsV city_customers),
                              (''top_10_cities_concentration'', concentration 10 city_customers n)])
               else Inr []) of
           Inl e \<Rightarrow> Inl e
         | Inr by_city \<Rightarrow> Inr (by_state @ by_city @ by_postal @ by_country))"

section \<open>get_advanced_analytics\<close>

text \<open>
  \<^verbatim>\<open>len(bulk_orders) / len(df)\<close> divides two Python integers. The channel table renames
  the columns of the aggregate to six names when the amount column is present and to
  three otherwise; the aggregate over both columns has six.
\<close>

definition order_size :: "dataframe \<Rightarrow> error + mapping" where
  "order_size df =
     (if has df ''Qty''
      then
        (let bulk_orders = filter (\<lambda>r. cmp_gt (the_num (r ''Qty'')) (Fin 1)) (rows df)
         in case py_div (int (length bulk_orders)) (int (len df)) of
              Inl e \<Rightarrow> Inl e
            | Inr p \<Rightarrow>
                Inr [(''avg_order_size'', NumV (np_mean (float64 (series df ''Qty'')))),
                     (''order_size_distribution'', CountsV (value_counts (series df ''Qty''))),
                     (''bulk_orders_count'', IntV (int (length bulk_orders))),
                     (''bulk_orders_percentage'', NumV (Fin (p * 100)))])
      else Inr [])"

definition status_analysis :: "dataframe \<Rightarrow> mapping" where
  "status_analysis df =
     (if has df ''Status''
      then
        (let status_dist = value_counts (series df ''Status'')
         in (''status_distribution'', CountsV status_dist) #
            (if Str ''Shipped'' \<in> set (map fst status_dist)
             then [(''fulfillment_rate'',
                    NumV (percent (np_div (of_nat (counts_get status_dist (Str ''Shipped'')))
                                          (of_nat (len df)))))]
             else []))
      else [])"

definition channel_performance :: "dataframe \<Rightarrow> error + mapping" where
  "channel_performance df =
     (if has df ''Sales Channel''
      then (case agg_dict df LabelV (group_by cell_key (series df ''Sales Channel'') (rows df))
                   [(''Amount'', if has df ''Amount'' then [Sum, Mean, Count] else [Count]),
                    (''Qty'', if has df ''Qty'' then [Sum, Mean] else [Count])] of
              Inl e \<Rightarrow> Inl e
            | Inr t \<Rightarrow>
                (if has df ''Amount''
                 then Inr [(''channel_performance'',
                            FrameV [''Sales_Channel'', ''Total_Revenue'', ''Avg_Revenue'',
                                    ''Order_Count'', ''Total_Qty'', ''Avg_Qty''] t)]
                 else Inl ValueError))
      else Inr [])"

definition product_diversity :: "dataframe \<Rightarrow> mapping" where
  "product_diversity df =
     (if has df ''Category''
      then [(''product_diversity'', IntV (int (nunique (series df ''Category'')))),
            (''top_3_categories_concentration'',
               concentration 3 (value_counts (series df ''Category'')) (len df))]
      else [])"

definition size_preferences :: "dataframe \<Rightarrow> mapping" where
  "size_preferences df =
     (if has df ''Size''
      then
        (let size_preferences = value_counts (series df ''Size'')
         in [(''size_preferences'', CountsV size_preferences),
             (''most_popular_size'',
                (case size_preferences of [] \<Rightarrow> StrV ''N/A'' | kn # _ \<Rightarrow> LabelV (fst kn)))])
      else [])"

definition get_advanced_analytics :: "dataframe \<Rightarrow> error + mapping" where
  "get_advanced_analytics df =
     (case order_size df of
        Inl e \<Rightarrow> Inl e
      | Inr sizes \<Rightarrow>
     (case channel_performance df of
        Inl e \<Rightarrow> Inl e
      | Inr channels \<Rightarrow>
          Inr (sizes @ status_analysis df @ channels @ product_diversity df
               @ size_preferences df)))"

section \<open>create_executive_summary\<close>

text \<open>
  A highlight is a format string with the values it is filled with. The top category is
  \<^verbatim>\<open>category_revenue.index[0]\<close>, the first label of the per-category revenue in
  descending order, read without a test that there is one.
\<close>

definition key_highlights :: "dataframe \<Rightarrow> val list" where
  "key_highlights df =
     [TextV ''Processed {total_orders:,} orders'' [IntV (int (len df))]]
     @ (if has df ''Amount''
        then [TextV ''Generated ${total_revenue:,.2f} in total revenue''
                [NumV (Fin (np_sum (float64 (series df ''Amount''))))],
              TextV ''Average order value: ${avg_order_value:.2f}''
                [NumV (np_mean (float64 (series df ''Amount'')))]]
        else [])
     @ (if has df ''ship-state''
        then [TextV ''Served customers in {unique_states} states''
                [IntV (int (nunique (series df ''ship-state'')))]]
        else [])
     @ (if has df ''ship-city''
        then [TextV ''Delivered to {unique_cities} cities''
                [IntV (int (nunique (series df ''ship-city'')))]]
        else [])
     @ (if has df ''Category''
        then [TextV ''Sold products across {unique_categories} categories''
                [IntV (int (nunique (series df ''Category'')))]]
        else [])
     @ (if has df ''Status''
          \<and> Str ''Shipped'' \<in> set (map fst (value_counts (series df ''Status'')))
        then [TextV ''Achieved {shipped_rate:.1f}% shipping rate''
                [NumV (percent (np_div
                   (of_nat (counts_get (value_counts (series df ''Status'')) (Str ''Shipped'')))
                   (of_nat (len df))))]]
        else [])"

definition top_revenue_category :: "dataframe \<Rightarrow> error + val list" where
  "top_revenue_category df =
     (if has df ''Category'' \<and> has df ''Amount''
      then (case sort_desc 1 (agg_rows LabelV
                   (group_by cell_key (series df ''Category'') (rows df))
                   [(''Amount'', [Sum])]) of
              [] \<Rightarrow> Inl IndexError
            | r # _ \<Rightarrow> Inr [TextV ''Focus on expanding {top_category} category'' [hd r]])
      else Inr [])"

definition underserved_states :: "dataframe \<Rightarrow> val list" where
  "underserved_states df =
     (if has df ''ship-state''
      then
        (let state_counts = map (\<lambda>kn. Some (of_nat (snd kn))) (value_counts (series df ''ship-state''));
             underserved = filter (\<lambda>n. cmp_lt n (quantile state_counts (1 / 4))) state_counts
         in if length underserved > 0
            then [TextV ''Opportunity to expand in {len(underserved_states)} underserved states''
                    [IntV (int (length underserved))]]
            else [])
      else [])"

definition create_executive_summary :: "dataframe \<Rightarrow> error + mapping" where
  "create_executive_summary df =
     (case top_revenue_category df of
        Inl e \<Rightarrow> Inl e
      | Inr focus \<Rightarrow>
          Inr [(''key_highlights'', ListV (key_highlights df)),
               (''growth_opportunities'', ListV (focus @ underserved_states df))])"

section \<open>get_sales_trends\<close>

text \<open>
  \<^verbatim>\<open>'date' in col.lower() or 'time' in col.lower()\<close>, on ASCII names.
\<close>

definition lower_char :: "char \<Rightarrow> char" where
  "lower_char c =
     (case map_of (zip ''ABCDEFGHIJKLMNOPQRSTUVWXYZ'' ''abcdefghijklmnopqrstuvwxyz'') c of
        Some d \<Rightarrow> d
      | None \<Rightarrow> c)"

definition lower :: "string \<Rightarrow> string" where
  "lower s = map lower_char s"

fun contains :: "string \<Rightarrow> string \<Rightarrow> bool" where
  "contains sub [] = (sub = [])"
| "contains sub (c # s) = (take (length sub) (c # s) = sub \<or> contains sub s)"

definition date_columns :: "dataframe \<Rightarrow> string list" where
  "date_columns df =
     filter (\<lambda>col. contains ''date'' (lower col) \<or> contains ''time'' (lower col)) (columns df)"

text \<open>
  \<^verbatim>\<open>pd.to_datetime\<close> belongs to pandas: the reading of one cell is the parameter
  \<open>parse\<close>, \<open>None\<close> where pandas cannot read the cell as a time. The conversion of a
  column raises when one of its cells cannot be read; a missing value becomes NaT, and a
  cell that is a timestamp already is kept.
\<close>

fun readable :: "(cell \<Rightarrow> timestamp option) \<Rightarrow> cell option \<Rightarrow> bool" where
  "readable parse None = True"
| "readable parse (Some (Stamp t)) = True"
| "readable parse (Some c) = (parse c \<noteq> None)"

fun read_cell :: "(cell \<Rightarrow> timestamp option) \<Rightarrow> cell option \<Rightarrow> timestamp option" where
  "read_cell parse None = None"
| "read_cell parse (Some (Stamp t)) = Some t"
| "read_cell parse (Some c) = parse c"

definition to_datetime ::
  "(cell \<Rightarrow> timestamp option) \<Rightarrow> cell option list \<Rightarrow> error + timestamp option list" where
  "to_datetime parse xs =
     (if list_all (readable parse) xs then Inr (map (read_cell parse) xs) else Inl ParserError)"

text \<open>\<^verbatim>\<open>df[c] = values\<close> on a column the frame has: the frame of the caller is changed.\<close>

definition set_column :: "dataframe \<Rightarrow> string \<Rightarrow> cell option list \<Rightarrow> dataframe" where
  "set_column df c xs = df\<lparr>rows := map (\<lambda>rx. (fst rx)(c := snd rx)) (zip (rows df) xs)\<rparr>"

definition stamp_of :: "row \<Rightarrow> string \<Rightarrow> timestamp option" where
  "stamp_of r c = (case r c of Some (Stamp t) \<Rightarrow> Some t | _ \<Rightarrow> None)"

text \<open>\<^verbatim>\<open>sort_values(c)\<close>: ascending, the rows without a time last.\<close>

definition sort_values :: "dataframe \<Rightarrow> string \<Rightarrow> dataframe" where
  "sort_values df c =
     df\<lparr>rows := sort_key (\<lambda>r. case stamp_of r c of
                                   Some t \<Rightarrow> (0 :: nat, t)
                                 | None \<Rightarrow> (1, (0, 0, 0, 0)))
                  (rows df)\<rparr>"

definition date_of :: "timestamp \<Rightarrow> nat \<times> nat \<times> nat" where
  "date_of t = (case t of (y, m, d, s) \<Rightarrow> (y, m, d))"

definition month_of :: "timestamp \<Rightarrow> nat \<times> nat" where
  "month_of t = (case t of (y, m, d, s) \<Rightarrow> (y, m))"

definition sales_spec :: "dataframe \<Rightarrow> (string \<times> aggfun list) list" where
  "sales_spec df =
     [(''Amount'', [if has df ''Amount'' then Sum else Count]),
      (''Qty'', [if has df ''Qty'' then Sum else Count])]"

definition growth_rate :: "val list list \<Rightarrow> mapping" where
  "growth_rate daily_sales =
     (if length daily_sales > 1
      then [(''growth_rate'',
             NumV (percent (np_div (num_of (last daily_sales ! 1) - num_of (hd daily_sales ! 1))
                                   (num_of (hd daily_sales ! 1)))))]
      else [])"

text \<open>
  The body of the \<^verbatim>\<open>try\<close>: the mapping holds what was stored before an exception, and
  the handler adds the key \<^verbatim>\<open>error\<close>. The function returns its mapping and leaves
  the frame of the caller as the second component.
\<close>

definition get_sales_trends ::
  "(cell \<Rightarrow> timestamp option) \<Rightarrow> dataframe \<Rightarrow> mapping \<times> dataframe" where
  "get_sales_trends parse df =
     (case date_columns df of
        [] \<Rightarrow> ([], df)
      | date_col # _ \<Rightarrow>
          (case to_datetime parse (series df date_col) of
             Inl e \<Rightarrow> ([(''error'', ErrorV e)], df)
           | Inr stamps \<Rightarrow>
               (let df1 = set_column df date_col (map (map_option Stamp) stamps);
                    df_sorted = sort_values df1 date_col;
                    days = map (\<lambda>r. map_option date_of (stamp_of r date_col)) (rows df_sorted);
                    months = map (\<lambda>r. map_option month_of (stamp_of r date_col)) (rows df_sorted)
                in case agg_dict df1 DateV (group_by id days (rows df_sorted)) (sales_spec df1) of
                     Inl e \<Rightarrow> ([(''error'', ErrorV e)], df1)
                   | Inr daily_sales \<Rightarrow>
                       (case agg_dict df1 PeriodV (group_by id months (rows df_sorted))
                               (sales_spec df1) of
                          Inl e \<Rightarrow>
                            ([(''daily_sales'', FrameV [date_col, ''Amount'', ''Qty''] daily_sales),
                              (''error'', ErrorV e)], df1)
                        | Inr monthly_sales \<Rightarrow>
                            ([(''daily_sales'', FrameV [date_col, ''Amount'', ''Qty''] daily_sales),
                              (''monthly_sales'',
                                 FrameV [date_col, ''Amount'', ''Qty''] monthly_sales)]
                             @ growth_rate daily_sales, df1)))))"

section \<open>Notions used in the properties\<close>

text \<open>
  A column that is present in a frame with rows, and holds no value at all.
\<close>

definition all_missing :: "dataframe \<Rightarrow> string \<Rightarrow> bool" where
  "all_missing df c \<longleftrightarrow> has df c \<and> len df > 0 \<and> dropna (series df c) = []"

text \<open>
  The metrics of \<^verbatim>\<open>get_key_metrics\<close> that read a column, each with its column, and
  those of them that the function stores with a default when the column is absent.
\<close>

definition metric_column :: "(string \<times> string) list" where
  "metric_column =
     [(''total_revenue'', ''Amount''), (''avg_order_value'', ''Amount''),
      (''total_quantity'', ''Qty''),
      (''revenue_std'', ''Amount''), (''median_order_value'', ''Amount''),
      (''max_order_value'', ''Amount''), (''min_order_value'', ''Amount''),
      (''unique_categories'', ''Category''), (''top_category'', ''Category''),
      (''unique_states'', ''ship-state''), (''top_state'', ''ship-state''),
      (''unique_cities'', ''ship-city''), (''top_city'', ''ship-city''),
      (''status_distribution'', ''Status''), (''shipped_percentage'', ''Status''),
      (''fulfillment_distribution'', ''Fulfilment'')]"

definition defaulted :: "string list" where
  "defaulted = [''total_revenue'', ''avg_order_value'', ''total_quantity'']"

section \<open>Example frames\<close>

text \<open>A reading of two dates, standing for \<^verbatim>\<open>pd.to_datetime\<close> on the examples.\<close>

definition parse_example :: "cell \<Rightarrow> timestamp option" where
  "parse_example c =
     (if c = Str ''2022-04-30'' then Some (2022, 4, 30, 0)
      else if c = Str ''2022-05-01'' then Some (2022, 5, 1, 0)
      else None)"

definition empty_with :: "string list \<Rightarrow> dataframe" where
  "empty_with cs = \<lparr>columns = cs, rows = []\<rparr>"

definition one_order :: dataframe where
  "one_order =
     \<lparr>columns = [''Date'', ''Amount'', ''Qty''],
      rows = [[''Date'' \<mapsto> Str ''2022-04-30'', ''Amount'' \<mapsto> Num 5, ''Qty'' \<mapsto> Num 1]]\<rparr>"

definition no_amount :: dataframe where
  "no_amount =
     \<lparr>columns = [''Date'', ''Qty''],
      rows = [[''Date'' \<mapsto> Str ''2022-04-30'', ''Qty'' \<mapsto> Num 1]]\<rparr>"

definition bad_date :: dataframe where
  "bad_date =
     \<lparr>columns = [''Order ID'', ''Date'', ''Amount'', ''Qty''],
      rows = [[''Order ID'' \<mapsto> Str ''171-1'', ''Date'' \<mapsto> Str ''2022-04-30'',
               ''Amount'' \<mapsto> Num 5, ''Qty'' \<mapsto> Num 1],
              [''Order ID'' \<mapsto> Str ''171-2'', ''Date'' \<mapsto> Str ''soon'',
               ''Amount'' \<mapsto> Num 7, ''Qty'' \<mapsto> Num 2]]\<rparr>"

definition city_only :: dataframe where
  "city_only = \<lparr>columns = [''ship-city''], rows = [[''ship-city'' \<mapsto> Str ''Pune'']]\<rparr>"

definition three_orders :: dataframe where
  "three_orders =
     \<lparr>columns = [''Amount'', ''Category'', ''Status''],
      rows = [[''Amount'' \<mapsto> Num 10, ''Category'' \<mapsto> Str ''A'', ''Status'' \<mapsto> Str ''Shipped''],
              [''Amount'' \<mapsto> Num 20, ''Category'' \<mapsto> Str ''A'', ''Status'' \<mapsto> Str ''Cancelled''],
              [''Amount'' \<mapsto> Num 30, ''Category'' \<mapsto> Str ''A'', ''Status'' \<mapsto> Str ''Shipped'']]\<rparr>"

definition categories_only :: dataframe where
  "categories_only = \<lparr>columns = [''Category''], rows = [[''Category'' \<mapsto> Str ''A'']]\<rparr>"

definition missing_category :: dataframe where
  "missing_category =
     \<lparr>columns = [''Category''], rows = [[''Category'' \<mapsto> Str ''A''], Map.empty]\<rparr>"

definition missing_amount :: dataframe where
  "missing_amount =
     \<lparr>columns = [''Amount''],
      rows = [[''Amount'' \<mapsto> Num 10], Map.empty, [''Amount'' \<mapsto> Num 30],
              [''Amount'' \<mapsto> Num 20]]\<rparr>"

section \<open>Lemmas on series and on get_key_metrics\<close>

lemma uniq_Nil [simp]: "uniq xs = [] \<longleftrightarrow> xs = []"
  by (simp add: uniq_def)

lemma set_uniq [simp]: "set (uniq xs) = set xs"
  by (simp add: uniq_def)

lemma distinct_uniq [simp]: "distinct (uniq xs)"
  by (simp add: uniq_def)

lemma sort_key_Nil: "sort_key f xs = [] \<longleftrightarrow> xs = []"
  using length_sort [of f xs] by (metis length_0_conv)

lemma value_counts_Nil: "value_counts xs = [] \<longleftrightarrow> dropna xs = []"
  by (simp add: value_counts_def Let_def sort_key_Nil)

lemma top_label_returns: "(\<exists>t. top_label df c = Inr t) \<longleftrightarrow> \<not> (len df > 0 \<and> dropna (series df c) = [])"
  using value_counts_Nil [of "series df c"]
  by (cases "value_counts (series df c)") (auto simp: top_label_def)

lemma unique_and_top_returns:
  "(\<exists>kv. unique_and_top df c ku kt = Inr kv) \<longleftrightarrow> \<not> all_missing df c"
  using top_label_returns [of df c]
  by (auto simp: unique_and_top_def all_missing_def split: sum.splits)

lemma unique_and_top_keys:
  "unique_and_top df c ku kt = Inr kv \<Longrightarrow> map fst kv = (if has df c then [ku, kt] else [])"
  by (auto simp: unique_and_top_def split: sum.splits if_splits)

lemma get_key_metrics_returns:
  "(\<exists>m. get_key_metrics df = Inr m) \<longleftrightarrow>
     \<not> all_missing df ''Category'' \<and> \<not> all_missing df ''ship-state'' \<and> \<not> all_missing df ''ship-city''"
  using unique_and_top_returns [of df "''Category''" "''unique_categories''" "''top_category''"]
    unique_and_top_returns [of df "''ship-state''" "''unique_states''" "''top_state''"]
    unique_and_top_returns [of df "''ship-city''" "''unique_cities''" "''top_city''"]
  by (auto simp: get_key_metrics_def split: sum.splits)

lemma get_key_metrics_parts:
  assumes "get_key_metrics df = Inr m"
  obtains category state city where
    "m = basic_metrics df @ advanced_metrics df @ category @ state @ city
           @ status_metrics df @ fulfillment_metrics df"
    "map fst category = (if has df ''Category'' then [''unique_categories'', ''top_category''] else [])"
    "map fst state = (if has df ''ship-state'' then [''unique_states'', ''top_state''] else [])"
    "map fst city = (if has df ''ship-city'' then [''unique_cities'', ''top_city''] else [])"
  using assms unique_and_top_keys
  by (auto simp: get_key_metrics_def split: sum.splits)

lemma get_key_metrics_keys:
  assumes "get_key_metrics df = Inr m"
  shows "map fst m =
     [''total_orders'', ''total_revenue'', ''avg_order_value'', ''total_quantity'']
     @ (if has df ''Amount''
        then [''revenue_std'', ''median_order_value'', ''max_order_value'', ''min_order_value'']
        else [])
     @ (if has df ''Category'' then [''unique_categories'', ''top_category''] else [])
     @ (if has df ''ship-state'' then [''unique_states'', ''top_state''] else [])
     @ (if has df ''ship-city'' then [''unique_cities'', ''top_city''] else [])
     @ (if has df ''Status'' then [''status_distribution'', ''shipped_percentage''] else [])
     @ (if has df ''Fulfilment'' then [''fulfillment_distribution''] else [])"
proof -
  from assms obtain category state city where
    m: "m = basic_metrics df @ advanced_metrics df @ category @ state @ city
           @ status_metrics df @ fulfillment_metrics df"
    and c: "map fst category = (if has df ''Category'' then [''unique_categories'', ''top_category''] else [])"
    and s: "map fst state = (if has df ''ship-state'' then [''unique_states'', ''top_state''] else [])"
    and t: "map fst city = (if has df ''ship-city'' then [''unique_cities'', ''top_city''] else [])"
    by (rule get_key_metrics_parts)
  have b: "map fst (basic_metrics df) = [''total_orders'', ''total_revenue'', ''avg_order_value'', ''total_quantity'']"
    by (simp add: basic_metrics_def)
  have a: "map fst (advanced_metrics df) = (if has df ''Amount''
        then [''revenue_std'', ''median_order_value'', ''max_order_value'', ''min_order_value'']
        else [])"
    by (simp add: advanced_metrics_def)
  have st: "map fst (status_metrics df) = (if has df ''Status'' then [''status_distribution'', ''shipped_percentage''] else [])"
    by (simp add: status_metrics_def)
  have f: "map fst (fulfillment_metrics df) = (if has df ''Fulfilment'' then [''fulfillment_distribution''] else [])"
    by (simp add: fulfillment_metrics_def)
  show ?thesis
    unfolding m map_append b a c s t st f ..
qed

lemma get_key_metrics_basic:
  assumes "get_key_metrics df = Inr m" and "k \<in> fst ` set (basic_metrics df)"
  shows "map_of m k = map_of (basic_metrics df) k"
proof -
  from assms(1) obtain rest where "m = basic_metrics df @ rest"
    by (auto simp: get_key_metrics_def split: sum.splits)
  with assms(2) show ?thesis
    by (simp add: map_add_dom_app_simps dom_map_of_conv_image_fst)
qed


lemma length_dropna_map: "length (dropna (map f rs)) = length (filter (\<lambda>r. f r \<noteq> None) rs)"
  by (induction rs) (auto split: option.splits)

lemma count_list_dropna: "count_list (dropna xs) k = count_list xs (Some k)"
  by (induction xs rule: dropna.induct) auto

lemma map_of_sort_key:
  assumes "distinct (map fst l)"
  shows "map_of (sort_key f l) = map_of l"
proof -
  have "distinct (map fst (sort_key f l))"
    using assms by (simp add: distinct_map)
  with assms show ?thesis
    by (simp add: map_of_inject_set)
qed

lemma counts_get_value_counts: "counts_get (value_counts xs) k = count_list xs (Some k)"
proof -
  let ?vs = "dropna xs"
  let ?l = "map (\<lambda>k. (k, count_list ?vs k)) (uniq ?vs)"
  have d: "distinct (map fst ?l)"
    by (simp add: comp_def)
  have "map_of ?l k = (if k \<in> set ?vs then Some (count_list ?vs k) else None)"
    by (simp add: map_of_map_restrict restrict_map_def)
  then have "counts_get (value_counts xs) k = count_list ?vs k"
    by (simp add: counts_get_def value_counts_def Let_def map_of_sort_key [OF d])
  then show ?thesis
    by (simp add: count_list_dropna)
qed

lemma sum_value_counts: "sum_list (map snd (value_counts xs)) = length (dropna xs)"
proof -
  let ?vs = "dropna xs"
  let ?l = "map (\<lambda>k. (k, count_list ?vs k)) (uniq ?vs)"
  have "mset (map snd (sort_key (\<lambda>kn. - int (snd kn)) ?l)) = mset (map snd ?l)"
    by (simp only: mset_map mset_sort)
  then have "sum_mset (mset (map snd (sort_key (\<lambda>kn. - int (snd kn)) ?l)))
      = sum_mset (mset (map snd ?l))"
    by (rule arg_cong)
  then have "sum_list (map snd (sort_key (\<lambda>kn. - int (snd kn)) ?l)) = sum_list (map snd ?l)"
    by (simp only: sum_mset_sum_list)
  also have "\<dots> = sum_list (map (count_list ?vs) (uniq ?vs))"
    by (simp add: comp_def)
  also have "\<dots> = sum (count_list ?vs) (set ?vs)"
    by (simp add: sum_list_distinct_conv_sum_set)
  also have "\<dots> = length ?vs"
    by (simp add: sum_count_set)
  finally show ?thesis
    by (simp add: value_counts_def Let_def)
qed

lemma get_key_metrics_shipped:
  assumes "get_key_metrics df = Inr m" and "has df ''Status''"
  shows "map_of m ''shipped_percentage'' = Some (shipped_percentage df)"
proof -
  from assms(1) obtain category state city where
    m: "m = basic_metrics df @ advanced_metrics df @ category @ state @ city
           @ status_metrics df @ fulfillment_metrics df"
    and c: "map fst category = (if has df ''Category'' then [''unique_categories'', ''top_category''] else [])"
    and s: "map fst state = (if has df ''ship-state'' then [''unique_states'', ''top_state''] else [])"
    and t: "map fst city = (if has df ''ship-city'' then [''unique_cities'', ''top_city''] else [])"
    by (rule get_key_metrics_parts)
  have 1: "map_of category ''shipped_percentage'' = None"
    unfolding map_of_eq_None_iff set_map [symmetric] c by simp
  have 2: "map_of state ''shipped_percentage'' = None"
    unfolding map_of_eq_None_iff set_map [symmetric] s by simp
  have 3: "map_of city ''shipped_percentage'' = None"
    unfolding map_of_eq_None_iff set_map [symmetric] t by simp
  have 4: "map_of (basic_metrics df) ''shipped_percentage'' = None"
    by (simp add: basic_metrics_def)
  have 5: "map_of (advanced_metrics df) ''shipped_percentage'' = None"
    by (simp add: advanced_metrics_def)
  have 6: "map_of (fulfillment_metrics df) ''shipped_percentage'' = None"
    by (simp add: fulfillment_metrics_def)
  have 7: "map_of (status_metrics df) ''shipped_percentage'' = Some (shipped_percentage df)"
    using assms(2) by (simp add: status_metrics_def)
  show ?thesis
    unfolding m by (simp add: map_add_def 1 2 3 4 5 6 7)
qed

lemma in_set_if: "k \<in> set (if P then xs else []) \<longleftrightarrow> P \<and> k \<in> set xs"
  by simp

lemma get_key_metrics_key_iff:
  assumes "get_key_metrics df = Inr m"
  shows "k \<in> keys m \<longleftrightarrow>
     k \<in> set [''total_orders'', ''total_revenue'', ''avg_order_value'', ''total_quantity'']
     \<or> has df ''Amount''
        \<and> k \<in> set [''revenue_std'', ''median_order_value'', ''max_order_value'', ''min_order_value'']
     \<or> has df ''Category'' \<and> k \<in> set [''unique_categories'', ''top_category'']
     \<or> has df ''ship-state'' \<and> k \<in> set [''unique_states'', ''top_state'']
     \<or> has df ''ship-city'' \<and> k \<in> set [''unique_cities'', ''top_city'']
     \<or> has df ''Status'' \<and> k \<in> set [''status_distribution'', ''shipped_percentage'']
     \<or> has df ''Fulfilment'' \<and> k \<in> set [''fulfillment_distribution'']"
proof -
  have "keys m = set (map fst m)"
    by (simp add: keys_def)
  then show ?thesis
    unfolding get_key_metrics_keys [OF assms]
    by (simp only: set_append Un_iff in_set_if)
qed

section \<open>Lemmas on get_category_analysis\<close>

lemma agg_dict_returns:
  "(\<exists>t. agg_dict df label gs spec = Inr t) \<longleftrightarrow> (\<forall>c \<in> set (map fst spec). has df c)"
  by (simp add: agg_dict_def Let_def filter_empty_conv)

lemma category_performance_returns:
  "(\<exists>p. category_performance df = Inr p) \<longleftrightarrow>
     \<not> (has df ''Amount'' \<and> has df ''Qty'' \<and> \<not> has df ''Order ID'')"
proof (cases "has df ''Amount'' \<and> has df ''Qty''")
  case False
  then show ?thesis
    by (auto simp: category_performance_def)
next
  case True
  let ?a = "agg_dict df LabelV (group_by cell_key (series df ''Category'') (rows df))
              [(''Amount'', [Sum, Mean, Std]), (''Qty'', [Sum, Mean]), (''Order ID'', [Count])]"
  have "(\<exists>t. ?a = Inr t) \<longleftrightarrow> has df ''Order ID''"
    using True by (simp add: agg_dict_returns)
  moreover have "(\<exists>p. category_performance df = Inr p) \<longleftrightarrow> (\<exists>t. ?a = Inr t)"
    using True by (cases ?a) (simp_all add: category_performance_def)
  ultimately show ?thesis
    using True by simp
qed

lemma get_category_analysis_returns:
  "(\<exists>m. get_category_analysis df = Inr m) \<longleftrightarrow>
     \<not> (has df ''Category'' \<and> has df ''Amount'' \<and> has df ''Qty'' \<and> \<not> has df ''Order ID'')"
proof (cases "has df ''Category''")
  case False
  then show ?thesis
    by (simp add: get_category_analysis_def)
next
  case True
  have "(\<exists>m. get_category_analysis df = Inr m) \<longleftrightarrow> (\<exists>p. category_performance df = Inr p)"
    using True
    by (cases "category_performance df") (simp_all add: get_category_analysis_def Let_def)
  then show ?thesis
    using True by (simp add: category_performance_returns)
qed

lemma get_category_analysis_counts:
  assumes "get_category_analysis df = Inr m" and "has df ''Category''"
  shows "map_of m ''category_counts'' = Some (CountsV (value_counts (series df ''Category'')))"
proof (cases "category_performance df")
  case (Inl e)
  with assms show ?thesis
    by (simp add: get_category_analysis_def Let_def)
next
  case (Inr p)
  with assms show ?thesis
    by (auto simp: get_category_analysis_def Let_def)
qed

section \<open>Lemmas on quantiles and value segments\<close>

lemma interpolate_between:
  fixes s :: "rat list"
  assumes "sorted s" and "s \<noteq> []" and "0 \<le> q" and "q \<le> 1"
  shows "nat \<lfloor>q * of_nat (length s - 1)\<rfloor> \<le> length s - 1"
    and "s ! nat \<lfloor>q * of_nat (length s - 1)\<rfloor> \<le> interpolate s q"
    and "interpolate s q \<le> s ! min (nat \<lfloor>q * of_nat (length s - 1)\<rfloor> + 1) (length s - 1)"
proof -
  let ?n = "length s - 1"
  let ?pos = "q * of_nat ?n"
  let ?lo = "nat \<lfloor>?pos\<rfloor>"
  let ?hi = "min (?lo + 1) ?n"
  let ?frac = "?pos - of_int \<lfloor>?pos\<rfloor>"
  have pos0: "0 \<le> ?pos"
    using assms(3) by simp
  have posn: "?pos \<le> of_nat ?n"
    using assms(4) mult_right_mono [of q 1 "of_nat ?n"] by simp
  have "\<lfloor>?pos\<rfloor> \<le> \<lfloor>(of_nat ?n :: rat)\<rfloor>"
    using posn by (rule floor_mono)
  then have "\<lfloor>?pos\<rfloor> \<le> int ?n"
    by simp
  then show lo: "?lo \<le> ?n"
    by linarith
  have hi: "?hi < length s"
    using assms(2) by (cases s) auto
  have "?lo \<le> ?hi"
    using lo by simp
  then have d: "s ! ?lo \<le> s ! ?hi"
    using assms(1) hi by (simp add: sorted_nth_mono)
  have f0: "0 \<le> ?frac" and f1: "?frac \<le> 1"
    by linarith+
  have e: "interpolate s q = s ! ?lo + ?frac * (s ! ?hi - s ! ?lo)"
    by (simp add: interpolate_def Let_def)
  have "0 \<le> ?frac * (s ! ?hi - s ! ?lo)"
    using f0 d by simp
  then show "s ! ?lo \<le> interpolate s q"
    unfolding e by linarith
  have "?frac * (s ! ?hi - s ! ?lo) \<le> 1 * (s ! ?hi - s ! ?lo)"
    using f1 d by (intro mult_right_mono) simp_all
  then have "?frac * (s ! ?hi - s ! ?lo) \<le> s ! ?hi - s ! ?lo"
    by (simp only: mult_1)
  then show "interpolate s q \<le> s ! ?hi"
    unfolding e by linarith
qed

lemma interpolate_mono:
  fixes s :: "rat list"
  assumes "sorted s" and "s \<noteq> []" and "0 \<le> p" and "p \<le> q" and "q \<le> 1"
  shows "interpolate s p \<le> interpolate s q"
proof -
  let ?n = "length s - 1"
  let ?a = "p * of_nat ?n" and ?b = "q * of_nat ?n"
  let ?la = "nat \<lfloor>?a\<rfloor>" and ?lb = "nat \<lfloor>?b\<rfloor>"
  have q0: "0 \<le> q" and p1: "p \<le> 1"
    using assms by linarith+
  have ab: "?a \<le> ?b"
    using assms(4) by (simp add: mult_right_mono)
  have a0: "0 \<le> ?a"
    using assms(3) by simp
  have fl: "\<lfloor>?a\<rfloor> \<le> \<lfloor>?b\<rfloor>"
    using ab by (rule floor_mono)
  have fa0: "0 \<le> \<lfloor>?a\<rfloor>"
    using a0 by simp
  note A = interpolate_between [OF assms(1,2,3) p1]
  note B = interpolate_between [OF assms(1,2) q0 assms(5)]
  show ?thesis
  proof (cases "\<lfloor>?a\<rfloor> = \<lfloor>?b\<rfloor>")
    case True
    let ?hi = "min (?la + 1) ?n"
    have hi: "?hi < length s"
      using assms(2) by (cases s) auto
    have "?la \<le> ?hi"
      using A(1) by simp
    then have d: "0 \<le> s ! ?hi - s ! ?la"
      using assms(1) hi by (simp add: sorted_nth_mono)
    have "(?a - of_int \<lfloor>?a\<rfloor>) * (s ! ?hi - s ! ?la) \<le> (?b - of_int \<lfloor>?a\<rfloor>) * (s ! ?hi - s ! ?la)"
      using ab d by (intro mult_right_mono) simp_all
    then show ?thesis
      using True by (simp add: interpolate_def Let_def)
  next
    case False
    with fl have lt: "\<lfloor>?a\<rfloor> < \<lfloor>?b\<rfloor>"
      by simp
    then have "?la + 1 \<le> ?lb"
      using fa0 by linarith
    then have h: "min (?la + 1) ?n \<le> ?lb"
      by (rule min.coboundedI1)
    have "?lb < length s"
      using B(1) assms(2) by (cases s) auto
    with assms(1) h have "s ! min (?la + 1) ?n \<le> s ! ?lb"
      by (rule sorted_nth_mono)
    with A(3) B(2) show ?thesis
      by linarith
  qed
qed

lemma sort_Nil: "sort xs = [] \<longleftrightarrow> xs = []"
  by (simp add: sort_key_Nil)

lemma quantile_Fin:
  "dropna xs \<noteq> [] \<Longrightarrow> quantile xs q = Fin (interpolate (sort (dropna xs)) q)"
  by (simp add: quantile_def Let_def sort_Nil)

lemma quantile_NaN: "dropna xs = [] \<Longrightarrow> quantile xs q = NaN"
  by (simp add: quantile_def)

lemma median_le_ninth_decile:
  assumes "dropna xs \<noteq> []"
  shows "interpolate (sort (dropna xs)) (1 / 2) \<le> interpolate (sort (dropna xs)) (9 / 10)"
  using assms by (intro interpolate_mono) (simp_all add: sort_Nil)

lemma segments_partition:
  fixes lo hi :: rat
  assumes "lo \<le> hi"
  shows "length (filter (\<lambda>a. cmp_gt a (Fin hi)) xs)
       + length (filter (\<lambda>a. cmp_ge a (Fin lo) \<and> cmp_le a (Fin hi)) xs)
       + length (filter (\<lambda>a. cmp_lt a (Fin lo)) xs)
       = length (dropna xs)"
  using assms by (induction xs rule: dropna.induct) auto

lemma segments_sum:
  "high_value_orders xs + medium_value_orders xs + low_value_orders xs = length (dropna xs)"
proof (cases "dropna xs = []")
  case True
  then show ?thesis
    by (simp add: high_value_orders_def medium_value_orders_def low_value_orders_def
          quantile_NaN)
next
  case False
  then show ?thesis
    unfolding high_value_orders_def medium_value_orders_def low_value_orders_def
      quantile_Fin [OF False]
    by (intro segments_partition median_le_ninth_decile)
qed

lemma length_present_amounts:
  assumes "numeric df c"
  shows "length (dropna (float64 (series df c))) = length (filter (\<lambda>r. r c \<noteq> None) (rows df))"
proof -
  have "\<forall>r \<in> set (rows df). is_num (r c)"
    using assms by (simp add: numeric_def series_def list_all_iff)
  then have "filter (\<lambda>r. the_num (r c) \<noteq> None) (rows df) = filter (\<lambda>r. r c \<noteq> None) (rows df)"
    by (intro filter_cong refl) (metis is_num.elims(2) the_num.simps(1) option.distinct(1) the_num.simps(2))
  then show ?thesis
    by (simp add: float64_def series_def length_dropna_map comp_def)
qed

lemma get_revenue_analysis_segments:
  assumes "has df ''Amount''"
  shows "map_of (get_revenue_analysis df) ''high_value_orders''
           = Some (IntV (int (high_value_orders (float64 (series df ''Amount'')))))"
    and "map_of (get_revenue_analysis df) ''medium_value_orders''
           = Some (IntV (int (medium_value_orders (float64 (series df ''Amount'')))))"
    and "map_of (get_revenue_analysis df) ''low_value_orders''
           = Some (IntV (int (low_value_orders (float64 (series df ''Amount'')))))"
  using assms by (simp_all add: get_revenue_analysis_def Let_def map_add_def)

section \<open>Exceptions of the engine\<close>

text \<open>
  Claim C1: every function of the engine returns a mapping on every dataset. The code
  does not: on a frame of no rows that has the quantity column, \<^verbatim>\<open>get_advanced_analytics\<close>
  divides by \<^verbatim>\<open>len(df)\<close>, which is zero; on a frame with the city column and without the
  state column, \<^verbatim>\<open>get_customer_insights\<close> reads \<^verbatim>\<open>total_orders\<close> before it is assigned;
  on a frame of no rows with the category and amount columns,
  \<^verbatim>\<open>create_executive_summary\<close> takes the first label of an empty index.
\<close>

theorem engine_functions_raise:
  "get_advanced_analytics (empty_with [''Qty'']) = Inl ZeroDivisionError
   \<and> get_customer_insights city_only = Inl (UnboundLocalError ''total_orders'')
   \<and> create_executive_summary (empty_with [''Category'', ''Amount'']) = Inl IndexError"
  by code_simp

section \<open>The frame after get_sales_trends\<close>

text \<open>
  Claim C2: the engine leaves its input dataset unchanged. \<^verbatim>\<open>get_sales_trends\<close> stores
  the parsed times in the date column of the frame it is given: on the frame of one
  order, dated by the text 2022-04-30, the date column holds a timestamp after the call.
\<close>

theorem get_sales_trends_changes_frame:
  "series one_order ''Date'' = [Some (Str ''2022-04-30'')]
   \<and> series (snd (get_sales_trends parse_example one_order)) ''Date''
       = [Some (Stamp (2022, 4, 30, 0))]"
  by code_simp

section \<open>Concentration on a frame of no rows\<close>

text \<open>
  Claim C3: the concentrations are in [0, 100], and a frame of no rows is guarded to 0
  or to a marker. On the frame of no rows with the state column the code divides 0 by 0
  and stores NaN.
\<close>

theorem concentration_of_no_rows:
  "get_customer_insights (empty_with [''ship-state''])
     = Inr [(''customers_by_state'', CountsV []),
            (''top_5_states_concentration'', NumV NaN)]"
  by code_simp

section \<open>Trends without the amount column\<close>

text \<open>
  Claim C5: the daily and monthly tables sum the amount and the quantity per group, and
  count where the column is absent. On a frame with a date column and no amount column
  the aggregation raises \<^verbatim>\<open>KeyError\<close>, the handler stores it, and no table is returned.
\<close>

theorem trends_without_amount:
  "fst (get_sales_trends parse_example no_amount) = [(''error'', ErrorV (KeyError [''Amount'']))]"
  by code_simp

section \<open>Dates that cannot be read\<close>

text \<open>
  Claim C6: when the date column that the function selects (the first column whose name
  contains date or time) holds a value that cannot be read as a time, \<^verbatim>\<open>get_sales_trends\<close>
  returns a mapping whose only key is \<^verbatim>\<open>error\<close>, so without the daily and monthly tables,
  and the frame is left as it was, so that the other functions return on it what they
  return without the call.
\<close>

theorem unreadable_dates_reported:
  assumes "date_columns df = c # cs"
    and "\<not> list_all (readable parse) (series df c)"
  shows "fst (get_sales_trends parse df) = [(''error'', ErrorV ParserError)]
    \<and> keys (fst (get_sales_trends parse df)) = {''error''}
    \<and> ''daily_sales'' \<notin> keys (fst (get_sales_trends parse df))
    \<and> ''monthly_sales'' \<notin> keys (fst (get_sales_trends parse df))
    \<and> snd (get_sales_trends parse df) = df
    \<and> get_key_metrics (snd (get_sales_trends parse df)) = get_key_metrics df
    \<and> get_category_analysis (snd (get_sales_trends parse df)) = get_category_analysis df
    \<and> get_revenue_analysis (snd (get_sales_trends parse df)) = get_revenue_analysis df
    \<and> get_customer_insights (snd (get_sales_trends parse df)) = get_customer_insights df"
proof -
  from assms have "get_sales_trends parse df = ([(''error'', ErrorV ParserError)], df)"
    by (simp add: get_sales_trends_def to_datetime_def)
  then show ?thesis
    by (simp add: keys_def)
qed

theorem unreadable_dates_reported_witness:
  "date_columns bad_date = [''Date'']
   \<and> \<not> list_all (readable parse_example) (series bad_date ''Date'')
   \<and> fst (get_sales_trends parse_example bad_date) = [(''error'', ErrorV ParserError)]
   \<and> snd (get_sales_trends parse_example bad_date) = bad_date"
proof -
  have c: "date_columns bad_date = [''Date'']"
    by code_simp
  have u: "\<not> list_all (readable parse_example) (series bad_date ''Date'')"
    by code_simp
  from unreadable_dates_reported [OF c u] c u show ?thesis
    by simp
qed

section \<open>The four basic metrics\<close>

text \<open>
  Claim C10: the mapping of \<^verbatim>\<open>get_key_metrics\<close> always holds the keys \<^verbatim>\<open>total_orders\<close>,
  \<^verbatim>\<open>total_revenue\<close>, \<^verbatim>\<open>avg_order_value\<close> and \<^verbatim>\<open>total_quantity\<close>, whatever the columns of
  the frame, and the last three are 0 when their column is absent. The function returns
  a mapping unless a category, state or city column is present and holds no value in a
  frame with rows.
\<close>

theorem basic_metrics_always_present:
  assumes "numeric df ''Amount''" and "numeric df ''Qty''"
  shows "(\<not> all_missing df ''Category'' \<and> \<not> all_missing df ''ship-state''
            \<and> \<not> all_missing df ''ship-city''
          \<longrightarrow> (\<exists>m. get_key_metrics df = Inr m))
    \<and> (\<forall>m. get_key_metrics df = Inr m \<longrightarrow>
          {''total_orders'', ''total_revenue'', ''avg_order_value'', ''total_quantity''} \<subseteq> keys m
          \<and> map_of m ''total_orders'' = Some (IntV (int (len df)))
          \<and> (\<not> has df ''Amount'' \<longrightarrow>
                map_of m ''total_revenue'' = Some (IntV 0)
                \<and> map_of m ''avg_order_value'' = Some (IntV 0))
          \<and> (\<not> has df ''Qty'' \<longrightarrow> map_of m ''total_quantity'' = Some (IntV 0)))"
proof (intro conjI allI impI)
  assume "\<not> all_missing df ''Category'' \<and> \<not> all_missing df ''ship-state''
            \<and> \<not> all_missing df ''ship-city''"
  then show "\<exists>m. get_key_metrics df = Inr m"
    by (simp add: get_key_metrics_returns)
next
  fix m assume m: "get_key_metrics df = Inr m"
  show "{''total_orders'', ''total_revenue'', ''avg_order_value'', ''total_quantity''} \<subseteq> keys m"
    unfolding keys_def set_map [symmetric] get_key_metrics_keys [OF m] by simp
  show "map_of m ''total_orders'' = Some (IntV (int (len df)))"
    by (simp add: get_key_metrics_basic [OF m] basic_metrics_def)
  show "map_of m ''total_revenue'' = Some (IntV 0)" if "\<not> has df ''Amount''"
    using that by (simp add: get_key_metrics_basic [OF m] basic_metrics_def)
  show "map_of m ''avg_order_value'' = Some (IntV 0)" if "\<not> has df ''Amount''"
    using that by (simp add: get_key_metrics_basic [OF m] basic_metrics_def)
  show "map_of m ''total_quantity'' = Some (IntV 0)" if "\<not> has df ''Qty''"
    using that by (simp add: get_key_metrics_basic [OF m] basic_metrics_def)
qed

theorem basic_metrics_always_present_witness:
  "numeric three_orders ''Amount'' \<and> numeric three_orders ''Qty''
   \<and> \<not> has three_orders ''Qty''
   \<and> (\<exists>m. get_key_metrics three_orders = Inr m
          \<and> ''total_revenue'' \<in> keys m
          \<and> map_of m ''total_orders'' = Some (IntV 3)
          \<and> map_of m ''total_quantity'' = Some (IntV 0))"
proof -
  have a: "numeric three_orders ''Amount''" and q: "numeric three_orders ''Qty''"
    by code_simp+
  have h: "\<not> has three_orders ''Qty''"
    by code_simp
  have r: "\<not> all_missing three_orders ''Category'' \<and> \<not> all_missing three_orders ''ship-state''
            \<and> \<not> all_missing three_orders ''ship-city''"
    by code_simp
  have l: "len three_orders = 3"
    by code_simp
  from basic_metrics_always_present [OF a q] r h l a q show ?thesis
    by fastforce
qed

section \<open>The shipped percentage\<close>

text \<open>
  Claim C9: with the status column present, \<^verbatim>\<open>shipped_percentage\<close> is 0 on a frame of no
  rows; on a frame with rows it is the share, times 100, of the rows whose status is
  Shipped, so it lies in [0, 100] and is 0 when no row is Shipped.
\<close>

theorem shipped_percentage_range:
  assumes "has df ''Status''" and "numeric df ''Amount''" and "numeric df ''Qty''"
  shows "(\<not> all_missing df ''Category'' \<and> \<not> all_missing df ''ship-state''
            \<and> \<not> all_missing df ''ship-city''
          \<longrightarrow> (\<exists>m. get_key_metrics df = Inr m))
    \<and> (\<forall>m. get_key_metrics df = Inr m \<longrightarrow>
          (len df = 0 \<longrightarrow> map_of m ''shipped_percentage'' = Some (IntV 0))
          \<and> (len df > 0 \<longrightarrow>
               (\<exists>x. map_of m ''shipped_percentage'' = Some (NumV (Fin x))
                    \<and> x = of_nat (count_list (series df ''Status'') (Some (Str ''Shipped'')))
                            / of_nat (len df) * 100
                    \<and> 0 \<le> x \<and> x \<le> 100
                    \<and> (Some (Str ''Shipped'') \<notin> set (series df ''Status'') \<longrightarrow> x = 0))))"
proof (intro conjI allI impI)
  assume "\<not> all_missing df ''Category'' \<and> \<not> all_missing df ''ship-state''
            \<and> \<not> all_missing df ''ship-city''"
  then show "\<exists>m. get_key_metrics df = Inr m"
    by (simp add: get_key_metrics_returns)
next
  fix m assume m: "get_key_metrics df = Inr m"
  note v = get_key_metrics_shipped [OF m assms(1)]
  show "map_of m ''shipped_percentage'' = Some (IntV 0)" if "len df = 0"
    using that by (simp add: v shipped_percentage_def)
  show "\<exists>x. map_of m ''shipped_percentage'' = Some (NumV (Fin x))
          \<and> x = of_nat (count_list (series df ''Status'') (Some (Str ''Shipped'')))
                  / of_nat (len df) * 100
          \<and> 0 \<le> x \<and> x \<le> 100
          \<and> (Some (Str ''Shipped'') \<notin> set (series df ''Status'') \<longrightarrow> x = 0)"
    if pos: "len df > 0"
  proof -
    let ?c = "count_list (series df ''Status'') (Some (Str ''Shipped''))"
    let ?x = "(of_nat ?c :: rat) / of_nat (len df) * 100"
    have le: "?c \<le> len df"
      using count_le_length [of "series df ''Status''"] by (simp add: series_def len_def)
    have "map_of m ''shipped_percentage'' = Some (NumV (Fin ?x))"
      using pos by (simp add: v shipped_percentage_def counts_get_value_counts np_div_def)
    moreover have "0 \<le> ?x"
      by simp
    moreover have "?x \<le> 100"
      using le pos by (simp add: divide_le_eq)
    moreover have "?x = 0" if "Some (Str ''Shipped'') \<notin> set (series df ''Status'')"
      using that by (simp add: count_list_0_iff)
    ultimately show ?thesis
      by (intro exI [of _ ?x] conjI impI) (assumption | rule refl)+
  qed
qed

theorem shipped_percentage_range_witness:
  "has three_orders ''Status'' \<and> numeric three_orders ''Amount'' \<and> numeric three_orders ''Qty''
   \<and> len three_orders > 0
   \<and> (\<exists>m. get_key_metrics three_orders = Inr m
          \<and> map_of m ''shipped_percentage'' = Some (NumV (Fin (200 / 3))))"
proof -
  have s: "has three_orders ''Status''"
    by code_simp
  have a: "numeric three_orders ''Amount''" and q: "numeric three_orders ''Qty''"
    by code_simp+
  have r: "\<not> all_missing three_orders ''Category'' \<and> \<not> all_missing three_orders ''ship-state''
            \<and> \<not> all_missing three_orders ''ship-city''"
    by code_simp
  have l: "len three_orders > 0"
    by code_simp
  have c: "(of_nat (count_list (series three_orders ''Status'') (Some (Str ''Shipped'')))
             / of_nat (len three_orders) * 100 :: rat) = 200 / 3"
    by code_simp
  from shipped_percentage_range [OF s a q] r l c s a q show ?thesis
    by fastforce
qed

section \<open>Metrics of absent columns\<close>

text \<open>
  Claim C4: every metric of \<^verbatim>\<open>get_key_metrics\<close> whose column is absent is left out of
  the mapping. The code stores \<^verbatim>\<open>total_revenue\<close>, \<^verbatim>\<open>avg_order_value\<close> and
  \<^verbatim>\<open>total_quantity\<close> with the default 0 in that case: on the frame that has the category
  column only, the mapping holds the three keys.
\<close>

theorem defaulted_metrics_present:
  "(''total_revenue'', ''Amount'') \<in> set metric_column
   \<and> \<not> has categories_only ''Amount''
   \<and> get_key_metrics categories_only
       = Inr [(''total_orders'', IntV 1), (''total_revenue'', IntV 0),
              (''avg_order_value'', IntV 0), (''total_quantity'', IntV 0),
              (''unique_categories'', IntV 1), (''top_category'', LabelV (Str ''A''))]"
  by code_simp

text \<open>
  Claim C4, amended: a metric whose column is absent is left out of the mapping, except
  \<^verbatim>\<open>total_revenue\<close>, \<^verbatim>\<open>avg_order_value\<close> and \<^verbatim>\<open>total_quantity\<close>, which are stored as 0;
  and an absent column raises no error: the function returns a mapping unless a
  category, state or city column that is present holds no value in a frame with rows.
\<close>

theorem missing_columns_omitted:
  assumes "numeric df ''Amount''" and "numeric df ''Qty''"
  shows "((\<exists>m. get_key_metrics df = Inr m) \<longleftrightarrow>
            \<not> all_missing df ''Category'' \<and> \<not> all_missing df ''ship-state''
            \<and> \<not> all_missing df ''ship-city'')
    \<and> (\<forall>m. get_key_metrics df = Inr m \<longrightarrow>
          (\<forall>kc \<in> set metric_column. \<not> has df (snd kc) \<longrightarrow>
             (if fst kc \<in> set defaulted then map_of m (fst kc) = Some (IntV 0)
              else fst kc \<notin> keys m)))"
proof (intro conjI allI impI ballI)
  show "(\<exists>m. get_key_metrics df = Inr m) \<longleftrightarrow>
            \<not> all_missing df ''Category'' \<and> \<not> all_missing df ''ship-state''
            \<and> \<not> all_missing df ''ship-city''"
    by (rule get_key_metrics_returns)
next
  fix m kc
  assume m: "get_key_metrics df = Inr m" and kc: "kc \<in> set metric_column"
    and absent: "\<not> has df (snd kc)"
  from kc have "kc \<in> set (take 3 metric_column) \<or> kc \<in> set (drop 3 metric_column)"
    by (metis append_take_drop_id set_append Un_iff)
  then show "if fst kc \<in> set defaulted then map_of m (fst kc) = Some (IntV 0)
              else fst kc \<notin> keys m"
  proof
    assume "kc \<in> set (take 3 metric_column)"
    with absent show ?thesis
      by (auto simp: metric_column_def defaulted_def get_key_metrics_basic [OF m]
            basic_metrics_def)
  next
    assume "kc \<in> set (drop 3 metric_column)"
    with absent show ?thesis
      by (auto simp: metric_column_def defaulted_def get_key_metrics_key_iff [OF m])
  qed
qed

theorem missing_columns_omitted_witness:
  "numeric categories_only ''Amount'' \<and> numeric categories_only ''Qty''
   \<and> \<not> has categories_only ''Amount''
   \<and> (\<exists>m. get_key_metrics categories_only = Inr m
          \<and> ''revenue_std'' \<notin> keys m
          \<and> map_of m ''total_revenue'' = Some (IntV 0))"
proof -
  have a: "numeric categories_only ''Amount''" and q: "numeric categories_only ''Qty''"
    by code_simp+
  have h: "\<not> has categories_only ''Amount''"
    by code_simp
  have r: "\<not> all_missing categories_only ''Category''
           \<and> \<not> all_missing categories_only ''ship-state''
           \<and> \<not> all_missing categories_only ''ship-city''"
    by code_simp
  have k1: "(''revenue_std'', ''Amount'') \<in> set metric_column"
    and k2: "(''total_revenue'', ''Amount'') \<in> set metric_column"
    by code_simp+
  have d1: "''revenue_std'' \<notin> set defaulted" and d2: "''total_revenue'' \<in> set defaulted"
    by code_simp+
  note t = missing_columns_omitted [OF a q]
  from t r obtain m where m: "get_key_metrics categories_only = Inr m"
    by blast
  from t m have b: "\<forall>kc \<in> set metric_column. \<not> has categories_only (snd kc) \<longrightarrow>
             (if fst kc \<in> set defaulted then map_of m (fst kc) = Some (IntV 0)
              else fst kc \<notin> keys m)"
    by blast
  from bspec [OF b k1] h d1 have "''revenue_std'' \<notin> keys m"
    by simp
  moreover from bspec [OF b k2] h d2 have "map_of m ''total_revenue'' = Some (IntV 0)"
    by simp
  ultimately show ?thesis
    using a q h m by blast
qed

section \<open>The category counts\<close>

text \<open>
  Claim C8: with the category column present, the counts of \<^verbatim>\<open>category_counts\<close> sum to
  the number of rows. \<^verbatim>\<open>value_counts\<close> leaves out the rows without a category: on the
  frame of two rows of which one has no category, the counts sum to 1.
\<close>

theorem category_counts_skip_missing:
  "has missing_category ''Category''
   \<and> len missing_category = 2
   \<and> get_category_analysis missing_category
       = Inr [(''category_counts'', CountsV [(Str ''A'', 1)]),
              (''top_categories'', CountsV [(Str ''A'', 1)])]"
  by code_simp

text \<open>
  Claim C8, amended: with the category column present, the counts of \<^verbatim>\<open>category_counts\<close>
  sum to the number of rows that have a category; so they sum to the number of rows
  when no row lacks its category. The function returns a mapping unless the amount and
  quantity columns are present and the order identifier column is not.
\<close>

theorem category_counts_sum:
  assumes "has df ''Category''" and "numeric df ''Amount''" and "numeric df ''Qty''"
  shows "((has df ''Amount'' \<and> has df ''Qty'' \<longrightarrow> has df ''Order ID'')
          \<longrightarrow> (\<exists>m. get_category_analysis df = Inr m))
    \<and> (\<forall>m. get_category_analysis df = Inr m \<longrightarrow>
          (\<exists>counts. map_of m ''category_counts'' = Some (CountsV counts)
             \<and> sum_list (map snd counts)
                 = length (filter (\<lambda>r. r ''Category'' \<noteq> None) (rows df))
             \<and> ((\<forall>r \<in> set (rows df). r ''Category'' \<noteq> None)
                  \<longrightarrow> sum_list (map snd counts) = len df)))"
proof (intro conjI allI impI)
  assume "has df ''Amount'' \<and> has df ''Qty'' \<longrightarrow> has df ''Order ID''"
  then have "\<not> (has df ''Category'' \<and> has df ''Amount'' \<and> has df ''Qty'' \<and> \<not> has df ''Order ID'')"
    by simp
  then show "\<exists>m. get_category_analysis df = Inr m"
    by (simp add: get_category_analysis_returns)
next
  fix m assume m: "get_category_analysis df = Inr m"
  let ?counts = "value_counts (series df ''Category'')"
  have s: "sum_list (map snd ?counts) = length (filter (\<lambda>r. r ''Category'' \<noteq> None) (rows df))"
    by (simp add: sum_value_counts series_def length_dropna_map)
  have t: "sum_list (map snd ?counts) = len df" if "\<forall>r \<in> set (rows df). r ''Category'' \<noteq> None"
    using that by (simp add: s len_def)
  from s t get_category_analysis_counts [OF m assms(1)]
  show "\<exists>counts. map_of m ''category_counts'' = Some (CountsV counts)
             \<and> sum_list (map snd counts)
                 = length (filter (\<lambda>r. r ''Category'' \<noteq> None) (rows df))
             \<and> ((\<forall>r \<in> set (rows df). r ''Category'' \<noteq> None)
                  \<longrightarrow> sum_list (map snd counts) = len df)"
    by (intro exI [of _ ?counts] conjI impI) (assumption | simp)+
qed

theorem category_counts_sum_witness:
  "has three_orders ''Category'' \<and> numeric three_orders ''Amount''
   \<and> numeric three_orders ''Qty''
   \<and> list_all (\<lambda>r. r ''Category'' \<noteq> None) (rows three_orders)
   \<and> (\<exists>m counts. get_category_analysis three_orders = Inr m
          \<and> map_of m ''category_counts'' = Some (CountsV counts)
          \<and> sum_list (map snd counts) = 3)"
proof -
  have c: "has three_orders ''Category''"
    by code_simp
  have a: "numeric three_orders ''Amount''" and q: "numeric three_orders ''Qty''"
    by code_simp+
  have o: "has three_orders ''Amount'' \<and> has three_orders ''Qty'' \<longrightarrow> has three_orders ''Order ID''"
    by code_simp
  have p: "\<forall>r \<in> set (rows three_orders). r ''Category'' \<noteq> None"
    by (simp add: three_orders_def)
  have l: "len three_orders = 3"
    by code_simp
  note t = category_counts_sum [OF c a q]
  from t o obtain m where m: "get_category_analysis three_orders = Inr m"
    by blast
  from t m p obtain counts where
    "map_of m ''category_counts'' = Some (CountsV counts)"
    "sum_list (map snd counts) = len three_orders"
    by blast
  with c a q p m l show ?thesis
    by (auto simp: list_all_iff)
qed

section \<open>The value segments\<close>

text \<open>
  Claim C7: with the amount column present and at least one row, the high, medium and
  low value segments sum to the number of rows. A row without an amount compares false
  with every quantile and is in no segment: on the frame of four rows with the amounts
  10, 30, 20 and one missing, the segments hold one row each.
\<close>

theorem segments_skip_missing:
  "has missing_amount ''Amount''
   \<and> len missing_amount = 4
   \<and> map_of (get_revenue_analysis missing_amount) ''high_value_orders'' = Some (IntV 1)
   \<and> map_of (get_revenue_analysis missing_amount) ''medium_value_orders'' = Some (IntV 1)
   \<and> map_of (get_revenue_analysis missing_amount) ''low_value_orders'' = Some (IntV 1)"
  by code_simp

text \<open>
  Claim C7, amended: with the amount column present, the segments (above the 90th
  percentile; from the median to the 90th percentile, both included; below the median;
  all three computed from the frame itself) sum to the number of rows that have an
  amount; so they sum to the number of rows when no row lacks its amount.
\<close>

theorem value_segments_cover_present_amounts:
  assumes "has df ''Amount''" and "numeric df ''Amount''"
  shows "\<exists>h m l.
      map_of (get_revenue_analysis df) ''high_value_orders'' = Some (IntV (int h))
    \<and> map_of (get_revenue_analysis df) ''medium_value_orders'' = Some (IntV (int m))
    \<and> map_of (get_revenue_analysis df) ''low_value_orders'' = Some (IntV (int l))
    \<and> h + m + l = length (filter (\<lambda>r. r ''Amount'' \<noteq> None) (rows df))
    \<and> ((\<forall>r \<in> set (rows df). r ''Amount'' \<noteq> None) \<longrightarrow> h + m + l = len df)"
proof -
  let ?xs = "float64 (series df ''Amount'')"
  have s: "high_value_orders ?xs + medium_value_orders ?xs + low_value_orders ?xs
         = length (filter (\<lambda>r. r ''Amount'' \<noteq> None) (rows df))"
    by (simp only: segments_sum length_present_amounts [OF assms(2)])
  have t: "high_value_orders ?xs + medium_value_orders ?xs + low_value_orders ?xs = len df"
    if "\<forall>r \<in> set (rows df). r ''Amount'' \<noteq> None"
    using that by (simp add: s len_def)
  from s t get_revenue_analysis_segments [OF assms(1)] show ?thesis
    by (intro exI [of _ "high_value_orders ?xs"] exI [of _ "medium_value_orders ?xs"]
          exI [of _ "low_value_orders ?xs"] conjI impI) (assumption | simp)+
qed

theorem value_segments_cover_present_amounts_witness:
  "has three_orders ''Amount'' \<and> numeric three_orders ''Amount''
   \<and> list_all (\<lambda>r. r ''Amount'' \<noteq> None) (rows three_orders)
   \<and> (\<exists>h m l.
          map_of (get_revenue_analysis three_orders) ''high_value_orders'' = Some (IntV (int h))
        \<and> map_of (get_revenue_analysis three_orders) ''medium_value_orders''
            = Some (IntV (int m))
        \<and> map_of (get_revenue_analysis three_orders) ''low_value_orders'' = Some (IntV (int l))
        \<and> h + m + l = 3)"
proof -
  have c: "has three_orders ''Amount''"
    by code_simp
  have a: "numeric three_orders ''Amount''"
    by code_simp
  have p: "\<forall>r \<in> set (rows three_orders). r ''Amount'' \<noteq> None"
    by (simp add: three_orders_def)
  have l: "len three_orders = 3"
    by code_simp
  from value_segments_cover_present_amounts [OF c a] p l c a show ?thesis
    by (fastforce simp: list_all_iff)
qed

end
